theory Spec2Isabelle
  imports Main
begin

section \<open>qutebrowser key parsers: \<open>qutebrowser/keyinput/keyparser.py\<close>\<close>

text \<open>
  The module defines two classes on top of \<open>basekeyparser.BaseKeyParser\<close>:
  \<open>CommandKeyParser\<close>, whose \<open>execute\<close> runs a command string and reports a command
  error as a message, and \<open>PassthroughKeyParser\<close>, whose \<open>handle\<close> replays an unmatched
  key chain to the focused window. The base class, \<open>keyutils\<close>, the command runner, the
  message module and Qt are collaborators that the module only calls.
\<close>

subsection \<open>Data\<close>

text \<open>\<open>QKeySequence.SequenceMatch\<close>: the verdict of feeding one key to a chain matcher.\<close>

datatype sequence_match = NoMatch | PartialMatch | ExactMatch

text \<open>\<open>QEvent.Type\<close>, restricted to the two members the module names.\<close>

datatype qevent_type = KeyPress | KeyRelease

text \<open>
  A \<open>QKeyEvent\<close>: its type, and what \<open>e.key()\<close> and \<open>e.modifiers()\<close> return (Qt key
  codes and modifier masks are integers).
\<close>

record qkeyevent =
  etype :: qevent_type
  ekey :: int
  emodifiers :: int

text \<open>\<open>keyutils.KeyInfo\<close>: one element of a \<open>keyutils.KeySequence\<close>.\<close>

record keyinfo =
  key :: int
  modifiers :: int

text \<open>
  Modelled from the spec: \<open>keyutils.KeySequence\<close> is not part of the module. The spec
  describes it as "an ordered, appendable sequence" of the keys typed so far: a list of
  \<open>keyinfo\<close>, empty when constructed without arguments, whose \<open>len\<close> is the number of keys
  and whose truth value is that of a sized Python container (non-empty).
\<close>

type_synonym keysequence = "keyinfo list"

text \<open>
  Modelled from the spec: \<open>KeySequence.append_event(e)\<close> returns a new sequence, the
  receiver followed by the key of \<open>e\<close> ("append e to a scratch copy of the buffered
  original-sequence"); the receiver is not changed.
\<close>

definition append_event :: "keysequence \<Rightarrow> qkeyevent \<Rightarrow> keysequence" where
  "append_event seq e = seq @ [\<lparr>key = ekey e, modifiers = emodifiers e\<rparr>]"

text \<open>
  Modelled from the spec: \<open>KeyInfo.to_event(typ)\<close> synthesizes a key event of the given
  type for the key.
\<close>

definition to_event :: "keyinfo \<Rightarrow> qevent_type \<Rightarrow> qkeyevent" where
  "to_event keyinfo typ = \<lparr>etype = typ, ekey = key keyinfo, emodifiers = modifiers keyinfo\<rparr>"

subsection \<open>\<open>CommandKeyParser.execute\<close>\<close>

text \<open>
  What \<open>self._commandrunner.run(cmdstr, count)\<close> can raise: \<open>cmdexc.Error\<close> (or a subclass
  of it), with the text \<open>str(e)\<close>, or any other exception \<open>'x\<close>.
\<close>

datatype 'x raised = CmdexcError string | OtherException 'x

text \<open>A call either returns (\<open>execute\<close> has no return value) or raises past the caller.\<close>

datatype 'x outcome = Returned | Raised 'x

text \<open>One call \<open>message.error(text, stack=...)\<close>.\<close>

record error_message =
  msg_text :: string
  msg_stack :: string

text \<open>
  The command runner is a parameter: \<open>run r cmdstr count\<close> gives what the call raised
  (\<open>None\<close> when it returned) and the runner's state afterwards. \<open>format_exc\<close> stands for
  \<open>traceback.format_exc()\<close> inside the handler, the formatted trace of the exception being
  handled. The result lists the calls of \<open>message.error\<close> that \<open>execute\<close> itself makes.

  \<^verbatim>\<open>
  def execute(self, cmdstr, count=None):
      try:
          self._commandrunner.run(cmdstr, count)
      except cmdexc.Error as e:
          message.error(str(e), stack=traceback.format_exc())
  \<close>
\<close>

definition execute ::
  "('r \<Rightarrow> string \<Rightarrow> int option \<Rightarrow> 'x raised option \<times> 'r) \<Rightarrow> ('x raised \<Rightarrow> string) \<Rightarrow>
     'r \<Rightarrow> string \<Rightarrow> int option \<Rightarrow> 'x outcome \<times> 'r \<times> error_message list" where
  "execute run format_exc commandrunner cmdstr count =
     (case run commandrunner cmdstr count of
        (None, r') \<Rightarrow> (Returned, r', [])
      | (Some (CmdexcError msg), r') \<Rightarrow>
          (Returned, r', [\<lparr>msg_text = msg, msg_stack = format_exc (CmdexcError msg)\<rparr>])
      | (Some (OtherException x), r') \<Rightarrow> (Raised x, r', []))"

subsection \<open>\<open>PassthroughKeyParser\<close>\<close>

text \<open>
  The instance state: the two attributes the class adds, and the state \<open>'b\<close> of the
  inherited \<open>BaseKeyParser\<close> part. (\<open>_mode\<close> is written once in the constructor and only
  read by \<open>__repr__\<close>.)
\<close>

record 'b parser =
  orig_sequence :: keysequence
  ignore_next_key :: bool
  base :: 'b

text \<open>The constructor: an empty original sequence and the flag unset.\<close>

definition init :: "'b \<Rightarrow> 'b parser" where
  "init b = \<lparr>orig_sequence = [], ignore_next_key = False, base = b\<rparr>"

text \<open>
  \<^verbatim>\<open>
  def clear_keystring(self):
      if self._orig_sequence:
          self._orig_sequence = keyutils.KeySequence()
      super().clear_keystring()
  \<close>
  \<open>base_clear_keystring\<close> is the inherited method, a parameter acting on the base state.
\<close>

definition clear_keystring :: "('b \<Rightarrow> 'b) \<Rightarrow> 'b parser \<Rightarrow> 'b parser" where
  "clear_keystring base_clear_keystring self =
     (let self1 = (if orig_sequence self \<noteq> [] then self\<lparr>orig_sequence := []\<rparr> else self)
      in self1\<lparr>base := base_clear_keystring (base self1)\<rparr>)"

text \<open>
  Modelled from the spec: \<open>BaseKeyParser.handle\<close> is not part of the module. It is the
  parameter \<open>base_handle\<close>: for the base state, the event and the \<open>dry_run\<close> flag it gives
  the verdict, the base state afterwards, and whether the call invoked
  \<open>self.clear_keystring()\<close>. The inherited method runs on the same instance, so such a call
  reaches the override above and empties \<open>_orig_sequence\<close>; the spec requires it "whenever
  the inherited matcher resets its own internal buffer". A dry run is, in the spec's
  words, "a non-mutating probe call used to test match outcome without committing state
  changes": of a dry run only the verdict is kept.
\<close>

type_synonym 'b base_handle = "'b \<Rightarrow> qkeyevent \<Rightarrow> bool \<Rightarrow> sequence_match \<times> 'b \<times> bool"

definition super_handle ::
  "'b base_handle \<Rightarrow> 'b parser \<Rightarrow> qkeyevent \<Rightarrow> bool \<Rightarrow> sequence_match \<times> 'b parser" where
  "super_handle base_handle self e dry_run =
     (if dry_run then (fst (base_handle (base self) e True), self)
      else
        (case base_handle (base self) e False of
           (match, b', cleared) \<Rightarrow>
             (match, (if cleared then self\<lparr>orig_sequence := []\<rparr> else self)\<lparr>base := b'\<rparr>)))"


text \<open>
  The replay loop: for every key of the sequence, in order, a press and then a release
  event is posted to the window.
  \<^verbatim>\<open>
  for keyinfo in orig_sequence:
      press_event = keyinfo.to_event(QEvent.KeyPress)
      release_event = keyinfo.to_event(QEvent.KeyRelease)
      QApplication.postEvent(window, press_event)
      QApplication.postEvent(window, release_event)
  \<close>
\<close>

fun replay :: "'w \<Rightarrow> keysequence \<Rightarrow> ('w \<times> qkeyevent) list" where
  "replay window [] = []"
| "replay window (keyinfo # rest) =
     (window, to_event keyinfo KeyPress) # (window, to_event keyinfo KeyRelease) #
       replay window rest"

text \<open>
  \<open>handle\<close>. Parameters: \<open>is_modifier_key\<close> (\<open>keyutils.is_modifier_key\<close>, not part of the
  module), the inherited \<open>handle\<close>, and \<open>focusWindow\<close>, what \<open>QApplication.focusWindow()\<close>
  returns when it is asked (\<open>None\<close> for no focused window). The result is the verdict, the
  instance afterwards, and the events posted with \<open>QApplication.postEvent\<close>, in order.

  \<^verbatim>\<open>
  def handle(self, e, *, dry_run=False):
      if keyutils.is_modifier_key(e.key()) or self._ignore_next_key:
          self._ignore_next_key = self._ignore_next_key and dry_run
          return QKeySequence.NoMatch

      orig_sequence = self._orig_sequence.append_event(e)
      match = super().handle(e, dry_run=dry_run)

      if not dry_run and match == QKeySequence.PartialMatch:
          self._orig_sequence = orig_sequence

      if dry_run or len(orig_sequence) == 1 or match != QKeySequence.NoMatch:
          return match

      window = QApplication.focusWindow()
      if window is None:
          return match

      self._ignore_next_key = True
      for keyinfo in orig_sequence:
          ...
      return QKeySequence.ExactMatch
  \<close>
\<close>

definition handle ::
  "(int \<Rightarrow> bool) \<Rightarrow> 'b base_handle \<Rightarrow> 'w option \<Rightarrow> 'b parser \<Rightarrow> qkeyevent \<Rightarrow> bool \<Rightarrow>
     sequence_match \<times> 'b parser \<times> ('w \<times> qkeyevent) list" where
  "handle is_modifier_key base_handle focusWindow self e dry_run =
     (if is_modifier_key (ekey e) \<or> ignore_next_key self then
        (NoMatch, self\<lparr>ignore_next_key := ignore_next_key self \<and> dry_run\<rparr>, [])
      else
        (let orig_seq = append_event (orig_sequence self) e in
         case super_handle base_handle self e dry_run of
           (match, self1) \<Rightarrow>
             (let self2 = (if \<not> dry_run \<and> match = PartialMatch
                           then self1\<lparr>orig_sequence := orig_seq\<rparr> else self1)
              in if dry_run \<or> length orig_seq = 1 \<or> match \<noteq> NoMatch then (match, self2, [])
                 else
                   (case focusWindow of
                      None \<Rightarrow> (match, self2, [])
                    | Some window \<Rightarrow>
                        (ExactMatch, self2\<lparr>ignore_next_key := True\<rparr>, replay window orig_seq)))))"

text \<open>
  A caller's successive calls of \<open>handle\<close> on one instance: each call is the event, the
  \<open>dry_run\<close> flag and the focused window at that moment; the instance is threaded through.
\<close>

fun handle_calls ::
  "(int \<Rightarrow> bool) \<Rightarrow> 'b base_handle \<Rightarrow> 'b parser \<Rightarrow> (qkeyevent \<times> bool \<times> 'w option) list \<Rightarrow>
     'b parser" where
  "handle_calls is_modifier_key base_handle self [] = self"
| "handle_calls is_modifier_key base_handle self ((e, dry_run, focusWindow) # calls) =
     handle_calls is_modifier_key base_handle
       (fst (snd (handle is_modifier_key base_handle focusWindow self e dry_run))) calls"

subsection \<open>Sample collaborators\<close>

text \<open>
  Concrete collaborators on which the theorems below are evaluated. The modifier test
  knows Qt's \<open>Key_Shift\<close>, \<open>Key_Control\<close>, \<open>Key_Meta\<close> and \<open>Key_Alt\<close>. The sample chain
  matcher has the single binding \<open>jj\<close> (\<open>Key_J\<close> is 74, \<open>Key_K\<close> is 75): its state is the
  keys of the chain so far, it resets the chain on a match and on a mismatch, calling
  \<open>clear_keystring\<close> when it does.
\<close>

definition example_is_modifier_key :: "int \<Rightarrow> bool" where
  "example_is_modifier_key k = (k \<in> set [16777248, 16777249, 16777250, 16777251])"

definition example_base_handle :: "int list base_handle" where
  "example_base_handle keys e dry_run =
     (let sequence = keys @ [ekey e]
      in if sequence = [74, 74] then (ExactMatch, [], True)
         else if sequence = [74] then (PartialMatch, sequence, False)
         else (NoMatch, [], True))"

definition example_base_clear_keystring :: "int list \<Rightarrow> int list" where
  "example_base_clear_keystring keys = []"

definition press :: "int \<Rightarrow> qkeyevent" where
  "press k = \<lparr>etype = KeyPress, ekey = k, emodifiers = 0\<rparr>"

text \<open>
  A sample command runner, counting the commands it has run: \<open>open\<close> succeeds, \<open>crash\<close>
  raises an exception that is not a command error, anything else is an unknown command.
\<close>

definition example_run :: "nat \<Rightarrow> string \<Rightarrow> int option \<Rightarrow> string raised option \<times> nat" where
  "example_run r cmdstr count =
     (if cmdstr = ''open'' then (None, Suc r)
      else if cmdstr = ''crash'' then (Some (OtherException ''TypeError''), r)
      else (Some (CmdexcError (cmdstr @ '': no such command'')), r))"

definition example_format_exc :: "string raised \<Rightarrow> string" where
  "example_format_exc ex =
     (case ex of CmdexcError msg \<Rightarrow> ''cmdexc.Error: '' @ msg | OtherException x \<Rightarrow> x)"

section \<open>Properties\<close>

subsection \<open>What one call of \<open>handle\<close> does\<close>

text \<open>The first branch: a modifier key, or a key to be ignored.\<close>

lemma handle_skip:
  "is_modifier_key (ekey e) \<or> ignore_next_key self \<Longrightarrow>
     handle is_modifier_key base_handle focusWindow self e dry_run =
       (NoMatch, self\<lparr>ignore_next_key := ignore_next_key self \<and> dry_run\<rparr>, [])"
  by (simp add: handle_def)

text \<open>A dry run returns the instance it was given and posts nothing.\<close>

lemma handle_dry_run:
  "fst (snd (handle is_modifier_key base_handle focusWindow self e True)) = self \<and>
   snd (snd (handle is_modifier_key base_handle focusWindow self e True)) = []"
  by (simp add: handle_def super_handle_def Let_def)

text \<open>
  A real call that reaches the inherited matcher, by the matcher's answer: the buffer
  afterwards, and the replay when the chain has more than one key, did not match and a
  window is focused.
\<close>

lemma handle_real:
  assumes "\<not> is_modifier_key (ekey e)" and "\<not> ignore_next_key self"
    and "base_handle (base self) e False = (match, b', cleared)"
  shows "handle is_modifier_key base_handle focusWindow self e False =
     (let orig_seq = append_event (orig_sequence self) e;
          buf = (if match = PartialMatch then orig_seq
                 else if cleared then [] else orig_sequence self)
      in if orig_sequence self = [] \<or> match \<noteq> NoMatch
         then (match, self\<lparr>orig_sequence := buf, base := b'\<rparr>, [])
         else (case focusWindow of
                 None \<Rightarrow> (match, self\<lparr>orig_sequence := buf, base := b'\<rparr>, [])
               | Some window \<Rightarrow>
                   (ExactMatch,
                    self\<lparr>orig_sequence := buf, ignore_next_key := True, base := b'\<rparr>,
                    replay window orig_seq)))"
  using assms
  by (cases focusWindow) (auto simp add: handle_def super_handle_def Let_def append_event_def)

lemma handle_calls_dry_run:
  "\<forall>c \<in> set calls. fst (snd c) \<Longrightarrow>
     handle_calls is_modifier_key base_handle self calls = self"
proof (induction calls arbitrary: self)
  case Nil
  show ?case by simp
next
  case (Cons c calls)
  obtain e dry_run focusWindow where c: "c = (e, dry_run, focusWindow)"
    by (cases c) auto
  from Cons.prems c have dry: "dry_run" by simp
  from Cons.prems have rest: "\<forall>c \<in> set calls. fst (snd c)" by simp
  show ?case
    using Cons.IH [OF rest] handle_dry_run [of is_modifier_key base_handle focusWindow self e]
    by (simp add: c dry)
qed


subsection \<open>The claims\<close>

text \<open>
  C1. A real call that completes a two-key chain (the buffer holds the first key, the
  event is the second, neither a modifier, the ignore flag unset) which the inherited
  matcher classifies as \<open>NoMatch\<close>, with a window focused, returns \<open>ExactMatch\<close> and
  posts exactly four events to that window: press and release of the first key, then
  press and release of the second.
\<close>

theorem C1_two_key_chain_replayed:
  assumes "orig_sequence self = [first]"
    and "\<not> is_modifier_key (ekey e)" and "\<not> ignore_next_key self"
    and "fst (base_handle (base self) e False) = NoMatch"
  shows "fst (handle is_modifier_key base_handle (Some window) self e False) = ExactMatch \<and>
         snd (snd (handle is_modifier_key base_handle (Some window) self e False)) =
           [(window, \<lparr>etype = KeyPress, ekey = key first, emodifiers = modifiers first\<rparr>),
            (window, \<lparr>etype = KeyRelease, ekey = key first, emodifiers = modifiers first\<rparr>),
            (window, \<lparr>etype = KeyPress, ekey = ekey e, emodifiers = emodifiers e\<rparr>),
            (window, \<lparr>etype = KeyRelease, ekey = ekey e, emodifiers = emodifiers e\<rparr>)]"
proof -
  obtain match b' cleared where bh: "base_handle (base self) e False = (match, b', cleared)"
    by (cases "base_handle (base self) e False") auto
  with assms(4) have m: "match = NoMatch" by simp
  show ?thesis
    using handle_real [where is_modifier_key = is_modifier_key and base_handle = base_handle
        and self = self and e = e and focusWindow = "Some window", OF assms(2) assms(3) bh] assms(1) m
    by (simp add: Let_def append_event_def to_event_def)
qed

text \<open>
  The chain \<open>j\<close>, \<open>k\<close> typed into a fresh parser whose matcher binds \<open>jj\<close>: the first call
  is a partial match and buffers \<open>j\<close>, the second is replayed to window 1.
\<close>

theorem C1_two_key_chain_replayed_witness:
  "orig_sequence (fst (snd (handle example_is_modifier_key example_base_handle (Some (1::nat))
       (init []) (press 74) False))) = [\<lparr>key = 74, modifiers = 0\<rparr>] \<and>
   fst (handle example_is_modifier_key example_base_handle (Some (1::nat))
       (fst (snd (handle example_is_modifier_key example_base_handle (Some (1::nat))
          (init []) (press 74) False))) (press 75) False) = ExactMatch \<and>
   snd (snd (handle example_is_modifier_key example_base_handle (Some (1::nat))
       (fst (snd (handle example_is_modifier_key example_base_handle (Some (1::nat))
          (init []) (press 74) False))) (press 75) False)) =
     [(1, \<lparr>etype = KeyPress, ekey = 74, emodifiers = 0\<rparr>),
      (1, \<lparr>etype = KeyRelease, ekey = 74, emodifiers = 0\<rparr>),
      (1, \<lparr>etype = KeyPress, ekey = 75, emodifiers = 0\<rparr>),
      (1, \<lparr>etype = KeyRelease, ekey = 75, emodifiers = 0\<rparr>)]"
proof -
  let ?s1 = "fst (snd (handle example_is_modifier_key example_base_handle (Some (1::nat))
       (init []) (press 74) False))"
  have s1: "?s1 = \<lparr>orig_sequence = [\<lparr>key = 74, modifiers = 0\<rparr>], ignore_next_key = False,
                   base = [74]\<rparr>"
    by (simp add: handle_def super_handle_def Let_def append_event_def init_def press_def
        example_is_modifier_key_def example_base_handle_def)
  have h1: "orig_sequence ?s1 = [\<lparr>key = 74, modifiers = 0\<rparr>]"
    by (simp only: s1) simp
  have h2: "\<not> example_is_modifier_key (ekey (press 75))"
    by (simp add: press_def example_is_modifier_key_def)
  have h3: "\<not> ignore_next_key ?s1"
    by (simp only: s1) simp
  have h4: "fst (example_base_handle (base ?s1) (press 75) False) = NoMatch"
    by (simp only: s1) (simp add: press_def example_base_handle_def)
  from C1_two_key_chain_replayed [where is_modifier_key = example_is_modifier_key
      and base_handle = example_base_handle and self = ?s1 and e = "press 75"
      and window = "1::nat", OF h1 h2 h3 h4] h1
  show ?thesis by (simp add: press_def)
qed



text \<open>
  C3, as the code has it. The test \<open>len(orig_sequence) == 1\<close> is on the scratch sequence,
  which already includes the current event. So for a real call with a non-modifier key
  and the ignore flag unset, if the buffered original sequence was empty before this
  event (a one-key chain), \<open>handle\<close> returns the inherited matcher's verdict as it is and
  posts nothing; in particular a one-key chain without a binding gives \<open>NoMatch\<close> and no
  replay.
\<close>

theorem C3_single_key_chain_not_replayed:
  assumes "\<not> is_modifier_key (ekey e)" and "\<not> ignore_next_key self"
    and "orig_sequence self = []"
  shows "fst (handle is_modifier_key base_handle focusWindow self e False) =
           fst (base_handle (base self) e False) \<and>
         snd (snd (handle is_modifier_key base_handle focusWindow self e False)) = []"
proof -
  obtain match b' cleared where bh: "base_handle (base self) e False = (match, b', cleared)"
    by (cases "base_handle (base self) e False") auto
  show ?thesis
    using handle_real [where is_modifier_key = is_modifier_key and base_handle = base_handle
        and self = self and e = e and focusWindow = focusWindow, OF assms(1) assms(2) bh]
      assms(3) bh
    by (simp add: Let_def)
qed

text \<open>The key \<open>k\<close> alone, with a matcher that binds only \<open>jj\<close>: \<open>NoMatch\<close>, nothing posted.\<close>

theorem C3_single_key_chain_not_replayed_witness:
  "fst (handle example_is_modifier_key example_base_handle (Some (1::nat)) (init [])
          (press 75) False) = NoMatch \<and>
   snd (snd (handle example_is_modifier_key example_base_handle (Some (1::nat)) (init [])
          (press 75) False)) = []"
proof -
  have h1: "\<not> example_is_modifier_key (ekey (press 75))"
    by (simp add: press_def example_is_modifier_key_def)
  have h2: "\<not> ignore_next_key (init ([]::int list))"
    by (simp add: init_def)
  have h3: "orig_sequence (init ([]::int list)) = []"
    by (simp add: init_def)
  from C3_single_key_chain_not_replayed [where is_modifier_key = example_is_modifier_key
      and base_handle = example_base_handle and self = "init []" and e = "press 75"
      and focusWindow = "Some (1::nat)", OF h1 h2 h3]
  show ?thesis
    by (simp add: init_def press_def example_base_handle_def)
qed

text \<open>
  C3 as stated fails: with exactly one event buffered before the call (\<open>j\<close>), the key
  \<open>k\<close>, which the matcher classifies as \<open>NoMatch\<close>, is answered with \<open>ExactMatch\<close> and
  the chain is replayed.
\<close>

theorem C3_one_buffered_event_counterexample:
  "length (orig_sequence \<lparr>orig_sequence = [\<lparr>key = 74, modifiers = 0\<rparr>],
                          ignore_next_key = False, base = [74::int]\<rparr>) = 1 \<and>
   \<not> example_is_modifier_key (ekey (press 75)) \<and>
   fst (example_base_handle [74] (press 75) False) = NoMatch \<and>
   fst (handle example_is_modifier_key example_base_handle (Some (1::nat))
       \<lparr>orig_sequence = [\<lparr>key = 74, modifiers = 0\<rparr>], ignore_next_key = False, base = [74]\<rparr>
       (press 75) False) = ExactMatch \<and>
   snd (snd (handle example_is_modifier_key example_base_handle (Some (1::nat))
       \<lparr>orig_sequence = [\<lparr>key = 74, modifiers = 0\<rparr>], ignore_next_key = False, base = [74]\<rparr>
       (press 75) False)) \<noteq> []"
  by (simp add: handle_def super_handle_def Let_def append_event_def press_def
      example_is_modifier_key_def example_base_handle_def)

text \<open>
  C4. A call with \<open>dry_run\<close> set, whatever the event and the verdict, leaves the buffered
  original sequence and the ignore flag as they were and posts no event.
\<close>

theorem C4_dry_run_changes_nothing:
  "orig_sequence (fst (snd (handle is_modifier_key base_handle focusWindow self e True))) =
     orig_sequence self \<and>
   ignore_next_key (fst (snd (handle is_modifier_key base_handle focusWindow self e True))) =
     ignore_next_key self \<and>
   snd (snd (handle is_modifier_key base_handle focusWindow self e True)) = []"
  using handle_dry_run [of is_modifier_key base_handle focusWindow self e] by simp

text \<open>
  Dry runs on a parser that has \<open>j\<close> buffered: of \<open>k\<close> (a mismatch of a two-key chain,
  window focused) and, with the ignore flag set, of \<open>j\<close>.
\<close>

theorem C4_dry_run_changes_nothing_witness:
  "fst (handle example_is_modifier_key example_base_handle (Some (1::nat))
       \<lparr>orig_sequence = [\<lparr>key = 74, modifiers = 0\<rparr>], ignore_next_key = False, base = [74]\<rparr>
       (press 75) True) = NoMatch \<and>
   orig_sequence (fst (snd (handle example_is_modifier_key example_base_handle (Some (1::nat))
       \<lparr>orig_sequence = [\<lparr>key = 74, modifiers = 0\<rparr>], ignore_next_key = False, base = [74]\<rparr>
       (press 75) True))) = [\<lparr>key = 74, modifiers = 0\<rparr>] \<and>
   \<not> ignore_next_key (fst (snd (handle example_is_modifier_key example_base_handle
       (Some (1::nat))
       \<lparr>orig_sequence = [\<lparr>key = 74, modifiers = 0\<rparr>], ignore_next_key = False, base = [74]\<rparr>
       (press 75) True))) \<and>
   snd (snd (handle example_is_modifier_key example_base_handle (Some (1::nat))
       \<lparr>orig_sequence = [\<lparr>key = 74, modifiers = 0\<rparr>], ignore_next_key = False, base = [74]\<rparr>
       (press 75) True)) = [] \<and>
   ignore_next_key (fst (snd (handle example_is_modifier_key example_base_handle
       (Some (1::nat))
       \<lparr>orig_sequence = [\<lparr>key = 74, modifiers = 0\<rparr>], ignore_next_key = True, base = [74]\<rparr>
       (press 74) True)))"
proof -
  have verdict: "fst (handle example_is_modifier_key example_base_handle (Some (1::nat))
       \<lparr>orig_sequence = [\<lparr>key = 74, modifiers = 0\<rparr>], ignore_next_key = False, base = [74]\<rparr>
       (press 75) True) = NoMatch"
    by (simp add: handle_def super_handle_def Let_def append_event_def press_def
        example_is_modifier_key_def example_base_handle_def)
  from verdict
    C4_dry_run_changes_nothing [of example_is_modifier_key example_base_handle
      "Some (1::nat)"
      "\<lparr>orig_sequence = [\<lparr>key = 74, modifiers = 0\<rparr>], ignore_next_key = False, base = [74]\<rparr>"
      "press 75"]
    C4_dry_run_changes_nothing [of example_is_modifier_key example_base_handle
      "Some (1::nat)"
      "\<lparr>orig_sequence = [\<lparr>key = 74, modifiers = 0\<rparr>], ignore_next_key = True, base = [74]\<rparr>"
      "press 74"]
  show ?thesis by simp
qed

text \<open>
  C5. When the command runner raises a command error, \<open>execute\<close> returns normally and
  has called \<open>message.error\<close> exactly once, with the error's text and the formatted
  trace; when the runner succeeds, \<open>execute\<close> returns normally and has displayed no
  message.
\<close>

theorem C5_execute_reports_command_error:
  "(fst (run commandrunner cmdstr count) = Some (CmdexcError msg) \<longrightarrow>
      execute run format_exc commandrunner cmdstr count =
        (Returned, snd (run commandrunner cmdstr count),
         [\<lparr>msg_text = msg, msg_stack = format_exc (CmdexcError msg)\<rparr>])) \<and>
   (fst (run commandrunner cmdstr count) = None \<longrightarrow>
      execute run format_exc commandrunner cmdstr count =
        (Returned, snd (run commandrunner cmdstr count), []))"
  by (cases "run commandrunner cmdstr count") (simp add: execute_def)

text \<open>An unknown command is reported once; \<open>open\<close> runs and reports nothing.\<close>

theorem C5_execute_reports_command_error_witness:
  "execute example_run example_format_exc 0 ''bogus'' None =
     (Returned, 0, [\<lparr>msg_text = ''bogus: no such command'',
                      msg_stack = ''cmdexc.Error: bogus: no such command''\<rparr>]) \<and>
   execute example_run example_format_exc 0 ''open'' (Some 3) = (Returned, 1, [])"
proof -
  have failure: "fst (example_run 0 ''bogus'' None) =
      Some (CmdexcError ''bogus: no such command'')"
    by (simp add: example_run_def)
  have success: "fst (example_run 0 ''open'' (Some 3)) = None"
    by (simp add: example_run_def)
  from failure success
    C5_execute_reports_command_error [of example_run 0 "''bogus''" None
      "''bogus: no such command''" example_format_exc]
    C5_execute_reports_command_error [of example_run 0 "''open''" "Some 3"
      "''bogus: no such command''" example_format_exc]
  show ?thesis
    by (simp add: example_run_def example_format_exc_def)
qed

text \<open>
  C6. When the event is a modifier key, or the ignore flag is set, \<open>handle\<close> returns
  \<open>NoMatch\<close> without consulting the inherited matcher (the result is the same for every
  matcher, and the base state is untouched), posts nothing and leaves the buffered
  original sequence unchanged.
\<close>

theorem C6_modifier_or_ignored_key:
  assumes "is_modifier_key (ekey e) \<or> ignore_next_key self"
  shows "fst (handle is_modifier_key base_handle focusWindow self e dry_run) = NoMatch \<and>
         orig_sequence (fst (snd (handle is_modifier_key base_handle focusWindow self e dry_run))) =
           orig_sequence self \<and>
         base (fst (snd (handle is_modifier_key base_handle focusWindow self e dry_run))) =
           base self \<and>
         snd (snd (handle is_modifier_key base_handle focusWindow self e dry_run)) = [] \<and>
         handle is_modifier_key base_handle focusWindow self e dry_run =
           handle is_modifier_key other_base_handle focusWindow self e dry_run"
proof -
  have "handle is_modifier_key base_handle focusWindow self e dry_run =
      (NoMatch, self\<lparr>ignore_next_key := ignore_next_key self \<and> dry_run\<rparr>, [])"
    using assms by (rule handle_skip)
  moreover have "handle is_modifier_key other_base_handle focusWindow self e dry_run =
      (NoMatch, self\<lparr>ignore_next_key := ignore_next_key self \<and> dry_run\<rparr>, [])"
    using assms by (rule handle_skip)
  ultimately show ?thesis by simp
qed

text \<open>
  The Shift key after a buffered \<open>j\<close>; and, with the ignore flag set, a second \<open>j\<close>, which
  the matcher would have taken as the binding \<open>jj\<close>.
\<close>

theorem C6_modifier_or_ignored_key_witness:
  "handle example_is_modifier_key example_base_handle (Some (1::nat))
       \<lparr>orig_sequence = [\<lparr>key = 74, modifiers = 0\<rparr>], ignore_next_key = False, base = [74]\<rparr>
       (press 16777248) False =
     (NoMatch,
      \<lparr>orig_sequence = [\<lparr>key = 74, modifiers = 0\<rparr>], ignore_next_key = False, base = [74]\<rparr>,
      []) \<and>
   fst (example_base_handle [74] (press 74) False) = ExactMatch \<and>
   fst (handle example_is_modifier_key example_base_handle (Some (1::nat))
       \<lparr>orig_sequence = [\<lparr>key = 74, modifiers = 0\<rparr>], ignore_next_key = True, base = [74]\<rparr>
       (press 74) False) = NoMatch \<and>
   orig_sequence (fst (snd (handle example_is_modifier_key example_base_handle (Some (1::nat))
       \<lparr>orig_sequence = [\<lparr>key = 74, modifiers = 0\<rparr>], ignore_next_key = True, base = [74]\<rparr>
       (press 74) False))) = [\<lparr>key = 74, modifiers = 0\<rparr>]"
proof -
  have shift: "example_is_modifier_key (ekey (press 16777248)) \<or>
      ignore_next_key \<lparr>orig_sequence = [\<lparr>key = 74, modifiers = 0\<rparr>],
                        ignore_next_key = False, base = [74::int]\<rparr>"
    by (simp add: press_def example_is_modifier_key_def)
  have ignored: "example_is_modifier_key (ekey (press 74)) \<or>
      ignore_next_key \<lparr>orig_sequence = [\<lparr>key = 74, modifiers = 0\<rparr>],
                        ignore_next_key = True, base = [74::int]\<rparr>"
    by simp
  have first: "handle example_is_modifier_key example_base_handle (Some (1::nat))
       \<lparr>orig_sequence = [\<lparr>key = 74, modifiers = 0\<rparr>], ignore_next_key = False, base = [74]\<rparr>
       (press 16777248) False =
     (NoMatch,
      \<lparr>orig_sequence = [\<lparr>key = 74, modifiers = 0\<rparr>], ignore_next_key = False, base = [74]\<rparr>,
      [])"
    using C6_modifier_or_ignored_key [where is_modifier_key = example_is_modifier_key
        and base_handle = example_base_handle and other_base_handle = example_base_handle
        and focusWindow = "Some (1::nat)" and e = "press 16777248" and dry_run = False
        and self = "\<lparr>orig_sequence = [\<lparr>key = 74, modifiers = 0\<rparr>],
                       ignore_next_key = False, base = [74]\<rparr>", OF shift]
    by (simp add: handle_def press_def example_is_modifier_key_def)
  have second: "fst (handle example_is_modifier_key example_base_handle (Some (1::nat))
       \<lparr>orig_sequence = [\<lparr>key = 74, modifiers = 0\<rparr>], ignore_next_key = True, base = [74]\<rparr>
       (press 74) False) = NoMatch \<and>
   orig_sequence (fst (snd (handle example_is_modifier_key example_base_handle (Some (1::nat))
       \<lparr>orig_sequence = [\<lparr>key = 74, modifiers = 0\<rparr>], ignore_next_key = True, base = [74]\<rparr>
       (press 74) False))) = [\<lparr>key = 74, modifiers = 0\<rparr>]"
    using C6_modifier_or_ignored_key [where is_modifier_key = example_is_modifier_key
        and base_handle = example_base_handle and other_base_handle = example_base_handle
        and focusWindow = "Some (1::nat)" and e = "press 74" and dry_run = False
        and self = "\<lparr>orig_sequence = [\<lparr>key = 74, modifiers = 0\<rparr>],
                       ignore_next_key = True, base = [74]\<rparr>", OF ignored]
    by simp
  have verdict: "fst (example_base_handle [74] (press 74) False) = ExactMatch"
    by (simp add: press_def example_base_handle_def)
  from first second verdict show ?thesis by simp
qed

text \<open>
  C7. A real call that reaches the replay branch (non-modifier key, ignore flag unset,
  a chain of more than one key, verdict \<open>NoMatch\<close>) while no window is focused posts no
  event, does not set the ignore flag and returns \<open>NoMatch\<close>.
\<close>

theorem C7_no_focused_window:
  assumes "\<not> is_modifier_key (ekey e)" and "\<not> ignore_next_key self"
    and "orig_sequence self \<noteq> []"
    and "fst (base_handle (base self) e False) = NoMatch"
  shows "fst (handle is_modifier_key base_handle (None :: 'w option) self e False) = NoMatch \<and>
         snd (snd (handle is_modifier_key base_handle (None :: 'w option) self e False)) = [] \<and>
         \<not> ignore_next_key (fst (snd (handle is_modifier_key base_handle
                  (None :: 'w option) self e False)))"
proof -
  obtain match b' cleared where bh: "base_handle (base self) e False = (match, b', cleared)"
    by (cases "base_handle (base self) e False") auto
  with assms(4) have m: "match = NoMatch" by simp
  show ?thesis
    using handle_real [where is_modifier_key = is_modifier_key and base_handle = base_handle
        and self = self and e = e and focusWindow = "None :: 'w option", OF assms(1) assms(2) bh]
      assms(2) assms(3) m
    by (simp add: Let_def)
qed

text \<open>The chain \<open>j\<close>, \<open>k\<close> with no window focused.\<close>

theorem C7_no_focused_window_witness:
  "handle example_is_modifier_key example_base_handle (None :: nat option)
       \<lparr>orig_sequence = [\<lparr>key = 74, modifiers = 0\<rparr>], ignore_next_key = False, base = [74]\<rparr>
       (press 75) False =
     (NoMatch, \<lparr>orig_sequence = [], ignore_next_key = False, base = []\<rparr>, [])"
proof -
  have h1: "\<not> example_is_modifier_key (ekey (press 75))"
    by (simp add: press_def example_is_modifier_key_def)
  have h2: "\<not> ignore_next_key \<lparr>orig_sequence = [\<lparr>key = 74, modifiers = 0\<rparr>],
                                ignore_next_key = False, base = [74::int]\<rparr>"
    by simp
  have h3: "orig_sequence \<lparr>orig_sequence = [\<lparr>key = 74, modifiers = 0\<rparr>],
                           ignore_next_key = False, base = [74::int]\<rparr> \<noteq> []"
    by simp
  have h4: "fst (example_base_handle
                  (base \<lparr>orig_sequence = [\<lparr>key = 74, modifiers = 0\<rparr>],
                         ignore_next_key = False, base = [74::int]\<rparr>) (press 75) False) =
            NoMatch"
    by (simp add: press_def example_base_handle_def)
  from C7_no_focused_window [where is_modifier_key = example_is_modifier_key
      and base_handle = example_base_handle and e = "press 75"
      and self = "\<lparr>orig_sequence = [\<lparr>key = 74, modifiers = 0\<rparr>],
                     ignore_next_key = False, base = [74]\<rparr>", OF h1 h2 h3 h4,
      where ?'w = nat]
  show ?thesis
    by (simp add: handle_def super_handle_def Let_def append_event_def press_def
        example_is_modifier_key_def example_base_handle_def)
qed

text \<open>
  C8. Dry runs neither set nor clear the ignore flag: after any sequence of dry-run
  calls it has the value it had before. If it was set, the first real call after them
  clears it (and is answered with \<open>NoMatch\<close>).
\<close>

theorem C8_ignore_flag_until_real_call:
  assumes "\<forall>c \<in> set calls. fst (snd c)"
  shows "ignore_next_key (handle_calls is_modifier_key base_handle self calls) =
           ignore_next_key self \<and>
         (ignore_next_key self \<longrightarrow>
            fst (handle is_modifier_key base_handle focusWindow
                   (handle_calls is_modifier_key base_handle self calls) e False) = NoMatch \<and>
            \<not> ignore_next_key (fst (snd (handle is_modifier_key base_handle focusWindow
                   (handle_calls is_modifier_key base_handle self calls) e False))))"
proof -
  have same: "handle_calls is_modifier_key base_handle self calls = self"
    using assms by (rule handle_calls_dry_run)
  have "ignore_next_key self \<Longrightarrow>
      handle is_modifier_key base_handle focusWindow self e False =
        (NoMatch, self\<lparr>ignore_next_key := ignore_next_key self \<and> False\<rparr>, [])"
    by (rule handle_skip) simp
  with same show ?thesis by simp
qed

text \<open>
  After a replay the flag is set; two dry-run probes (of \<open>j\<close> and of Shift) leave it
  set, and the real \<open>j\<close> that follows clears it.
\<close>

theorem C8_ignore_flag_until_real_call_witness:
  "ignore_next_key (handle_calls example_is_modifier_key example_base_handle
       \<lparr>orig_sequence = [], ignore_next_key = True, base = []\<rparr>
       [(press 74, True, Some (1::nat)), (press 16777248, True, None)]) \<and>
   \<not> ignore_next_key (fst (snd (handle example_is_modifier_key example_base_handle
       (Some (1::nat))
       (handle_calls example_is_modifier_key example_base_handle
          \<lparr>orig_sequence = [], ignore_next_key = True, base = []\<rparr>
          [(press 74, True, Some (1::nat)), (press 16777248, True, None)])
       (press 74) False)))"
proof -
  have dry: "\<forall>c \<in> set [(press 74, True, Some (1::nat)), (press 16777248, True, None)].
      fst (snd c)"
    by simp
  from C8_ignore_flag_until_real_call [where is_modifier_key = example_is_modifier_key
      and base_handle = example_base_handle and focusWindow = "Some (1::nat)"
      and e = "press 74"
      and self = "\<lparr>orig_sequence = [], ignore_next_key = True, base = []\<rparr>", OF dry]
  show ?thesis by simp
qed

text \<open>
  C9. After \<open>clear_keystring\<close> the buffered original sequence is empty, whatever the
  state before; on an already empty buffer it stays empty, and clearing twice is
  clearing once.
\<close>

theorem C9_clear_keystring_empties_buffer:
  "orig_sequence (clear_keystring base_clear_keystring self) = [] \<and>
   (orig_sequence self = [] \<longrightarrow>
      orig_sequence (clear_keystring base_clear_keystring self) = orig_sequence self) \<and>
   orig_sequence (clear_keystring base_clear_keystring
                    (clear_keystring base_clear_keystring self)) =
     orig_sequence (clear_keystring base_clear_keystring self)"
  by (simp add: clear_keystring_def Let_def)

text \<open>Clearing a buffer that holds \<open>j\<close>, and a fresh parser's empty one.\<close>

theorem C9_clear_keystring_empties_buffer_witness:
  "orig_sequence (clear_keystring example_base_clear_keystring
       \<lparr>orig_sequence = [\<lparr>key = 74, modifiers = 0\<rparr>], ignore_next_key = False,
        base = [74::int]\<rparr>) = [] \<and>
   orig_sequence (clear_keystring example_base_clear_keystring (init ([]::int list))) = []"
  using C9_clear_keystring_empties_buffer [of example_base_clear_keystring
      "\<lparr>orig_sequence = [\<lparr>key = 74, modifiers = 0\<rparr>], ignore_next_key = False,
        base = [74::int]\<rparr>"]
    C9_clear_keystring_empties_buffer [of example_base_clear_keystring "init ([]::int list)"]
  by simp

text \<open>
  C10. \<open>execute\<close> catches only the command runner's command error: any other exception
  the runner raises reaches the caller of \<open>execute\<close>, and no message is displayed.
\<close>

theorem C10_other_exception_propagates:
  assumes "fst (run commandrunner cmdstr count) = Some (OtherException x)"
  shows "execute run format_exc commandrunner cmdstr count =
           (Raised x, snd (run commandrunner cmdstr count), [])"
  using assms by (cases "run commandrunner cmdstr count") (simp add: execute_def)

text \<open>The sample runner's \<open>crash\<close> raises a \<open>TypeError\<close> past \<open>execute\<close>.\<close>

theorem C10_other_exception_propagates_witness:
  "execute example_run example_format_exc 0 ''crash'' None = (Raised ''TypeError'', 0, [])"
proof -
  have raised: "fst (example_run 0 ''crash'' None) = Some (OtherException ''TypeError'')"
    by (simp add: example_run_def)
  from C10_other_exception_propagates [of example_run 0 "''crash''" None "''TypeError''"
      example_format_exc, OF raised]
  show ?thesis by (simp add: example_run_def)
qed

end
